theory Spec2Isabelle
  imports Complex_Main "HOL-Library.Char_ord" "HOL-Library.List_Lexorder" "HOL-Library.AList"
    "HOL-Library.Multiset"
begin

section \<open>Data model\<close>

text \<open>
  A cell of a table is a number, a text, a missing value or something pandas cannot hash
  (a JSON array or object inside a record).  Numbers are exact rationals: the rounding of
  binary floating point is outside this model.  The missing value stands for both
  \<^verbatim>\<open>None\<close> and \<^verbatim>\<open>NaN\<close>.
\<close>

datatype scalar = Null | Num rat | Str string | Exotic

datatype error = HTTPError | KeyError | TypeError | ValueError

text \<open>
  A record of the DataStore is a JSON object: a list of key/value pairs.  A data frame
  keeps its column names in order and its rows; a row that lacks a key reads as missing
  (what \<^verbatim>\<open>pd.DataFrame(records)\<close> does with ragged records).
\<close>

type_synonym row = "(string \<times> scalar) list"

record dataframe =
  columns :: "string list"
  rows :: "row list"

definition cell :: "row \<Rightarrow> string \<Rightarrow> scalar" where
  "cell r c = (case map_of r c of Some v \<Rightarrow> v | None \<Rightarrow> Null)"

text \<open>\<^verbatim>\<open>df[c]\<close> for a column name \<open>c\<close> of the frame.\<close>

definition column :: "dataframe \<Rightarrow> string \<Rightarrow> scalar list" where
  "column df c = map (\<lambda>r. cell r c) (rows df)"

text \<open>\<^verbatim>\<open>pd.DataFrame(records)\<close>: one row per record, columns in order of first appearance.\<close>

definition DataFrame :: "row list \<Rightarrow> dataframe" where
  "DataFrame records =
     \<lparr>columns = rev (remdups (rev (concat (map (map fst) records)))), rows = records\<rparr>"

section \<open>Resource loader\<close>

text \<open>
  A resource descriptor is a dictionary read with \<^verbatim>\<open>.get\<close>: a key may be absent.
  The catalog is the outside world: the DataStore query (\<^verbatim>\<open>get_json\<close> followed by
  \<^verbatim>\<open>["result"]["records"]\<close>) and \<^verbatim>\<open>pd.read_csv\<close>, each of which may raise.
\<close>

record resource =
  res_id :: string
  format :: "string option"
  datastore_active :: "bool option"
  url :: "string option"

record catalog =
  datastore_search :: "string \<Rightarrow> int \<Rightarrow> error + row list"
  read_csv :: "string \<Rightarrow> error + dataframe"

datatype io_call = DatastoreSearch string int | ReadCsv string

text \<open>\<^verbatim>\<open>str.upper\<close> on the ASCII letters; other bytes are left as they are.\<close>

definition upper_char :: "char \<Rightarrow> char" where
  "upper_char c =
     (case map_of (zip ''abcdefghijklmnopqrstuvwxyz'' ''ABCDEFGHIJKLMNOPQRSTUVWXYZ'') c of
        Some u \<Rightarrow> u | None \<Rightarrow> c)"

definition upper :: "string \<Rightarrow> string" where
  "upper s = map upper_char s"

text \<open>Python truthiness of \<^verbatim>\<open>resource.get(key)\<close>.\<close>

definition truthy_flag :: "bool option \<Rightarrow> bool" where
  "truthy_flag b = (b = Some True)"

definition truthy_str :: "string option \<Rightarrow> bool" where
  "truthy_str s = (case s of Some u \<Rightarrow> u \<noteq> [] | None \<Rightarrow> False)"

definition or_empty :: "string option \<Rightarrow> string" where
  "or_empty s = (case s of Some u \<Rightarrow> u | None \<Rightarrow> [])"

definition cargar_recurso_datastore :: "catalog \<Rightarrow> string \<Rightarrow> int \<Rightarrow> error + dataframe" where
  "cargar_recurso_datastore cat resource_id limit =
     (case datastore_search cat resource_id limit of
        Inl e \<Rightarrow> Inl e
      | Inr records \<Rightarrow> Inr (DataFrame records))"

text \<open>
  The loader returns the calls it made to the outside world and its result:
  an exception, \<open>None\<close>, or a frame.
\<close>

definition cargar_recurso ::
  "catalog \<Rightarrow> resource \<Rightarrow> int \<Rightarrow> io_call list \<times> (error + dataframe option)" where
  "cargar_recurso cat resource limit =
     (if truthy_flag (datastore_active resource) then
        ([DatastoreSearch (res_id resource) limit],
         map_sum id Some (cargar_recurso_datastore cat (res_id resource) limit))
      else if upper (or_empty (format resource)) = ''CSV'' \<and> truthy_str (url resource) then
        ([ReadCsv (or_empty (url resource))],
         map_sum id Some (read_csv cat (or_empty (url resource))))
      else ([], Inr None))"

section \<open>Schema profiler\<close>

text \<open>
  \<^verbatim>\<open>Series.nunique(dropna=True)\<close> hashes every cell of the column: one unhashable
  cell makes it raise \<^verbatim>\<open>TypeError\<close>; otherwise it counts the distinct cells that
  are not missing.
\<close>

definition nunique :: "scalar list \<Rightarrow> error + nat" where
  "nunique vs =
     (if Exotic \<in> set vs then Inl TypeError
      else Inr (length (remdups (filter (\<lambda>v. v \<noteq> Null) vs))))"

text \<open>
  The loop of \<^verbatim>\<open>low_cardinality_cols\<close>, with the list \<open>cols\<close> built so far.  The body
  of the \<^verbatim>\<open>try\<close> either raises or decides; \<^verbatim>\<open>except Exception: pass\<close> goes on
  with the next column.
\<close>

fun low_cardinality_loop ::
  "dataframe \<Rightarrow> nat \<Rightarrow> string list \<Rightarrow> string list \<Rightarrow> error + string list" where
  "low_cardinality_loop df max_unique [] cols = Inr cols"
| "low_cardinality_loop df max_unique (c # cs) cols =
     (case nunique (column df c) of
        Inr nun \<Rightarrow>
          if 2 \<le> nun \<and> nun \<le> max_unique
          then low_cardinality_loop df max_unique cs (cols @ [c])
          else low_cardinality_loop df max_unique cs cols
      | Inl e \<Rightarrow> low_cardinality_loop df max_unique cs cols)"

definition low_cardinality_cols :: "dataframe \<Rightarrow> nat \<Rightarrow> error + string list" where
  "low_cardinality_cols df max_unique = low_cardinality_loop df max_unique (columns df) []"

text \<open>
  \<^verbatim>\<open>cat_candidates = [c for c in low_cardinality_cols(df_f) if c != col]\<close>, with the
  default \<^verbatim>\<open>max_unique=60\<close>.
\<close>

definition cat_candidates :: "dataframe \<Rightarrow> string \<Rightarrow> error + string list" where
  "cat_candidates df_f col =
     (case low_cardinality_cols df_f 60 of
        Inl e \<Rightarrow> Inl e
      | Inr cs \<Rightarrow> Inr (filter (\<lambda>c. c \<noteq> col) cs))"

section \<open>Filter and statistics\<close>

text \<open>
  \<^verbatim>\<open>pd.to_numeric(..., errors="coerce")\<close> on one cell: a number stays, a text is parsed
  and becomes missing when it does not parse, anything else becomes missing.  The parser
  of numeric texts belongs to pandas and is the parameter \<open>parse\<close>.
\<close>

definition to_numeric :: "(string \<Rightarrow> rat option) \<Rightarrow> scalar \<Rightarrow> scalar" where
  "to_numeric parse v =
     (case v of
        Num x \<Rightarrow> Num x
      | Str t \<Rightarrow> (case parse t of Some x \<Rightarrow> Num x | None \<Rightarrow> Null)
      | Null \<Rightarrow> Null
      | Exotic \<Rightarrow> Null)"

text \<open>\<^verbatim>\<open>df[c] = vs\<close>: every row gets its new cell.\<close>

definition setitem :: "dataframe \<Rightarrow> string \<Rightarrow> scalar list \<Rightarrow> dataframe" where
  "setitem df c vs =
     \<lparr>columns = (if c \<in> set (columns df) then columns df else columns df @ [c]),
      rows = map (\<lambda>(r, v). AList.update c v r) (zip (rows df) vs)\<rparr>"

text \<open>\<^verbatim>\<open>.dropna()\<close> of a numeric series: the numbers that remain, in order.\<close>

fun dropna :: "scalar list \<Rightarrow> rat list" where
  "dropna [] = []"
| "dropna (Num x # vs) = x # dropna vs"
| "dropna (v # vs) = dropna vs"

text \<open>Line 200: the frame with the chosen column coerced; line 201: \<open>serie\<close>.\<close>

definition coerced :: "(string \<Rightarrow> rat option) \<Rightarrow> dataframe \<Rightarrow> string \<Rightarrow> dataframe" where
  "coerced parse df col = setitem df col (map (to_numeric parse) (column df col))"

definition serie :: "(string \<Rightarrow> rat option) \<Rightarrow> dataframe \<Rightarrow> string \<Rightarrow> rat list" where
  "serie parse df col = dropna (column (coerced parse df col) col)"

text \<open>
  The mask \<^verbatim>\<open>(df[col] >= rango[0]) & (df[col] <= rango[1])\<close>: a comparison with a
  missing value is false.
\<close>

definition in_rango :: "rat \<times> rat \<Rightarrow> scalar \<Rightarrow> bool" where
  "in_rango rango v = (case v of Num x \<Rightarrow> fst rango \<le> x \<and> x \<le> snd rango | _ \<Rightarrow> False)"

text \<open>Line 210: \<open>df_f\<close>, the rows of the (coerced) frame that the mask keeps; line 211: \<open>s\<close>.\<close>

definition df_f :: "dataframe \<Rightarrow> string \<Rightarrow> rat \<times> rat \<Rightarrow> dataframe" where
  "df_f df col rango = df\<lparr>rows := filter (\<lambda>r. in_rango rango (cell r col)) (rows df)\<rparr>"

definition s_f :: "(string \<Rightarrow> rat option) \<Rightarrow> dataframe \<Rightarrow> string \<Rightarrow> rat \<times> rat \<Rightarrow> rat list" where
  "s_f parse df col rango = dropna (column (df_f (coerced parse df col) col rango) col)"

text \<open>Line 208: the bounds of the slider, whose default selection is the pair of them.\<close>

definition minv :: "rat list \<Rightarrow> rat" where
  "minv xs = Min (set xs)"

definition maxv :: "rat list \<Rightarrow> rat" where
  "maxv xs = Max (set xs)"

text \<open>
  The statistics of pandas on a series without missing values.  On the empty series the
  sum is 0 and the others are \<^verbatim>\<open>NaN\<close>, here \<open>None\<close>.
\<close>

definition mean :: "rat list \<Rightarrow> rat option" where
  "mean xs = (if xs = [] then None else Some (sum_list xs / of_nat (length xs)))"

definition median :: "rat list \<Rightarrow> rat option" where
  "median xs =
     (if xs = [] then None
      else let ys = sort xs; n = length ys in
        if odd n then Some (ys ! (n div 2))
        else Some ((ys ! (n div 2 - 1) + ys ! (n div 2)) / 2))"

definition quantile :: "rat \<Rightarrow> rat list \<Rightarrow> rat option" where
  "quantile q xs =
     (if xs = [] then None
      else let ys = sort xs; pos = q * of_nat (length ys - 1); i = nat \<lfloor>pos\<rfloor>;
               frac = pos - of_nat i in
        if i + 1 < length ys then Some (ys ! i + frac * (ys ! (i + 1) - ys ! i))
        else Some (ys ! i))"

definition maximum :: "rat list \<Rightarrow> rat option" where
  "maximum xs = (if xs = [] then None else Some (Max (set xs)))"

text \<open>Comparisons of floats: false as soon as one side is \<^verbatim>\<open>NaN\<close>.\<close>

fun gt_float :: "rat option \<Rightarrow> rat option \<Rightarrow> bool" where
  "gt_float (Some a) (Some b) = (a > b)"
| "gt_float _ _ = False"

fun lt_float :: "rat option \<Rightarrow> rat option \<Rightarrow> bool" where
  "lt_float (Some a) (Some b) = (a < b)"
| "lt_float _ _ = False"

datatype asimetria = Positiva | Negativa | Simetrica

text \<open>Line 274.\<close>

definition asim :: "rat list \<Rightarrow> asimetria" where
  "asim s =
     (if gt_float (mean s) (median s) then Positiva
      else if lt_float (mean s) (median s) then Negativa
      else Simetrica)"

text \<open>Lines 214 to 220: the six indicators shown for \<open>s\<close>.\<close>

record kpis =
  registros :: nat
  suma :: rat
  promedio :: "rat option"
  mediana :: "rat option"
  p90 :: "rat option"
  maximo :: "rat option"

definition indicadores :: "rat list \<Rightarrow> kpis" where
  "indicadores s =
     \<lparr>registros = length s, suma = sum_list s, promedio = mean s, mediana = median s,
      p90 = quantile (9 / 10) s, maximo = maximum s\<rparr>"

text \<open>
  Lines 200 to 274 for one interaction: the column chosen and the range the slider
  returns.  \<^verbatim>\<open>st.stop()\<close> ends the run; otherwise the indicators and the
  conclusion are computed from \<open>s\<close>.
\<close>

datatype outcome = Stopped_empty_series | Rendered kpis asimetria

definition analisis ::
  "(string \<Rightarrow> rat option) \<Rightarrow> dataframe \<Rightarrow> string \<Rightarrow> rat \<times> rat \<Rightarrow> outcome" where
  "analisis parse df col rango =
     (if serie parse df col = [] then Stopped_empty_series
      else let s = s_f parse df col rango in Rendered (indicadores s) (asim s))"

text \<open>What the slider can return: a pair inside its bounds, lower end first.\<close>

definition slider_ok :: "rat list \<Rightarrow> rat \<times> rat \<Rightarrow> bool" where
  "slider_ok xs rango =
     (minv xs \<le> fst rango \<and> fst rango \<le> snd rango \<and> snd rango \<le> maxv xs)"

section \<open>Top 15 by category\<close>

datatype modo = Suma | Promedio | Conteo

text \<open>
  Lines 247 and 248: \<open>tmp\<close>, the two columns \<open>cat\<close> and \<open>col\<close> of \<open>df_f\<close> row by row,
  the cells of \<open>cat\<close> after \<^verbatim>\<open>astype(str)\<close>.  Python's \<^verbatim>\<open>str\<close> of a cell is the
  parameter \<open>astype_str\<close>.  \<open>cat\<close> comes from \<open>cat_candidates\<close>, so it is not \<open>col\<close>.
\<close>

definition tmp :: "(scalar \<Rightarrow> string) \<Rightarrow> dataframe \<Rightarrow> string \<Rightarrow> string \<Rightarrow> (string \<times> scalar) list" where
  "tmp astype_str df cat col = zip (map astype_str (column df cat)) (column df col)"

text \<open>
  \<^verbatim>\<open>tmp.groupby(cat)[col]\<close>: pandas sorts the group keys (\<^verbatim>\<open>sort=True\<close> is the
  default) and each group holds the values of its rows, in row order; the reductions skip
  missing values.
\<close>

definition groupby :: "(string \<times> scalar) list \<Rightarrow> (string \<times> rat list) list" where
  "groupby t =
     map (\<lambda>k. (k, dropna (map snd (filter (\<lambda>p. fst p = k) t))))
       (sort (remdups (map fst t)))"

fun reduce :: "modo \<Rightarrow> rat list \<Rightarrow> rat option" where
  "reduce Suma xs = Some (sum_list xs)"
| "reduce Promedio xs = mean xs"
| "reduce Conteo xs = Some (of_nat (length xs))"

text \<open>
  \<^verbatim>\<open>numpy.argsort\<close> with the default kind, quicksort: the positions of \<open>xs\<close>, arranged so
  that the numbers at them ascend.  Quicksort is not stable, so the arrangement of positions
  that hold equal numbers is not specified.  The parameter \<open>tie\<close> stands for what the
  sort does with them: it ranks the positions of the array it is given, and positions with
  equal numbers come out by rank.  Every arrangement that ascends is the result for some
  \<open>tie\<close>, and nothing is assumed about \<open>tie\<close>.
\<close>

definition argsort :: "(rat list \<Rightarrow> nat \<Rightarrow> nat) \<Rightarrow> rat list \<Rightarrow> nat list" where
  "argsort tie xs = sort_key (\<lambda>i. xs ! i) (sort_key (tie xs) [0..<length xs])"

text \<open>
  \<^verbatim>\<open>.sort_values(ascending=False)\<close> as pandas does it (\<^verbatim>\<open>nargsort\<close>): the entries
  that are not \<^verbatim>\<open>NaN\<close> are reversed, \<^verbatim>\<open>argsort\<close> arranges them in ascending order,
  the arrangement is reversed, and the \<^verbatim>\<open>NaN\<close> entries come last.
\<close>

definition sort_values_desc ::
  "(rat list \<Rightarrow> nat \<Rightarrow> nat) \<Rightarrow> (string \<times> rat option) list \<Rightarrow> (string \<times> rat option) list" where
  "sort_values_desc tie ser =
     (let non_nans = rev (filter (\<lambda>p. snd p \<noteq> None) ser);
          nans = filter (\<lambda>p. snd p = None) ser;
          indexer = argsort tie (map (\<lambda>p. the (snd p)) non_nans)
      in rev (map (\<lambda>i. non_nans ! i) indexer) @ nans)"

text \<open>Lines 250 to 258: \<open>grp\<close>, for each of the three modes.\<close>

definition grp ::
  "(rat list \<Rightarrow> nat \<Rightarrow> nat) \<Rightarrow> (string \<times> scalar) list \<Rightarrow> modo \<Rightarrow> (string \<times> rat option) list" where
  "grp tie t modo =
     take 15 (sort_values_desc tie (map (\<lambda>(k, xs). (k, reduce modo xs)) (groupby t)))"




section \<open>Example data\<close>

text \<open>A store that honours the limit of a query, and a file of three rows.\<close>

definition tienda :: catalog where
  "tienda =
     \<lparr>datastore_search =
        (\<lambda>i n. if i = ''r1''
                then Inr (take (nat n) [[(''a'', Num 1)], [(''a'', Num 2)], [(''a'', Num 3)]])
                else Inl HTTPError),
      read_csv =
        (\<lambda>u. if u = ''http://x/y.csv''
              then Inr \<lparr>columns = [''a''],
                        rows = [[(''a'', Num 1)], [(''a'', Num 2)], [(''a'', Num 3)]]\<rparr>
              else Inl HTTPError)\<rparr>"

definition recurso_ds :: resource where
  "recurso_ds =
     \<lparr>res_id = ''r1'', format = Some ''CSV'', datastore_active = Some True,
      url = Some ''http://x/y.csv''\<rparr>"

definition recurso_csv :: resource where
  "recurso_csv =
     \<lparr>res_id = ''r2'', format = Some ''csv'', datastore_active = Some False,
      url = Some ''http://x/y.csv''\<rparr>"

definition recurso_pdf :: resource where
  "recurso_pdf =
     \<lparr>res_id = ''r3'', format = Some ''PDF'', datastore_active = None,
      url = Some ''http://x/y.pdf''\<rparr>"


text \<open>
  Two sorts: one leaves equal numbers in the order it receives them, the other turns them
  around.
\<close>

definition as_received :: "rat list \<Rightarrow> nat \<Rightarrow> nat" where
  "as_received xs i = 0"

definition turned :: "rat list \<Rightarrow> nat \<Rightarrow> nat" where
  "turned xs i = length xs - i"

text \<open>A frame with a column that cannot be hashed and a column with one category.\<close>

definition perfil :: dataframe where
  "perfil =
     \<lparr>columns = [''anio'', ''region'', ''tags'', ''pais''],
      rows = [[(''anio'', Num 2020), (''region'', Str ''sur''), (''tags'', Exotic),
               (''pais'', Str ''cl'')],
              [(''anio'', Num 2021), (''region'', Null), (''tags'', Str ''a''),
               (''pais'', Str ''cl'')],
              [(''anio'', Num 2020), (''region'', Str ''norte''), (''tags'', Str ''b''),
               (''pais'', Null)]]\<rparr>"

text \<open>The scenario of the specification, beside a column without any number.\<close>

definition tabla_egresos :: dataframe where
  "tabla_egresos =
     \<lparr>columns = [''egresos'', ''notas''],
      rows = [[(''egresos'', Num 10), (''notas'', Str ''bad'')],
              [(''egresos'', Num 20), (''notas'', Null)],
              [(''egresos'', Num 30), (''notas'', Str ''n/a'')],
              [(''egresos'', Str ''bad''), (''notas'', Null)],
              [(''egresos'', Null), (''notas'', Exotic)]]\<rparr>"

definition ejemplo :: dataframe where
  "ejemplo =
     \<lparr>columns = [''region'', ''egresos''],
      rows = [[(''region'', Str ''sur''), (''egresos'', Num 4)],
              [(''region'', Str ''norte''), (''egresos'', Num 7)],
              [(''region'', Str ''sur''), (''egresos'', Num 3)],
              [(''region'', Str ''centro''), (''egresos'', Num 90)]]\<rparr>"

text \<open>
  Python's \<^verbatim>\<open>str\<close> on the cells of the examples: a text is itself, and a missing
  cell of a float column prints as \<^verbatim>\<open>nan\<close>.  The category columns of the examples hold
  nothing else.
\<close>

fun str_texto :: "scalar \<Rightarrow> string" where
  "str_texto (Str t) = t"
| "str_texto v = ''nan''"

section \<open>Resource loader: results\<close>

text \<open>
  C2.  The loader picks one strategy, in a fixed order.  With \<open>datastore_active\<close> true it
  queries the DataStore and makes no CSV read.  Otherwise, with a format whose upper-case
  form is \<open>CSV\<close> and a non-empty URL, it reads the CSV at that URL.  Otherwise it
  returns \<open>None\<close> without any call.  It never makes more than one call.
\<close>

theorem cargar_recurso_strategy:
  "(truthy_flag (datastore_active r) \<longrightarrow>
      cargar_recurso cat r limit =
        ([DatastoreSearch (res_id r) limit],
         map_sum id Some (cargar_recurso_datastore cat (res_id r) limit)) \<and>
      (\<forall>u. ReadCsv u \<notin> set (fst (cargar_recurso cat r limit)))) \<and>
   (\<not> truthy_flag (datastore_active r) \<and> upper (or_empty (format r)) = ''CSV'' \<and>
    truthy_str (url r) \<longrightarrow>
      (\<exists>u. url r = Some u \<and> u \<noteq> [] \<and>
           cargar_recurso cat r limit = ([ReadCsv u], map_sum id Some (read_csv cat u)))) \<and>
   (\<not> truthy_flag (datastore_active r) \<and>
    \<not> (upper (or_empty (format r)) = ''CSV'' \<and> truthy_str (url r)) \<longrightarrow>
      cargar_recurso cat r limit = ([], Inr None)) \<and>
   length (fst (cargar_recurso cat r limit)) \<le> 1"
  by (auto simp: cargar_recurso_def truthy_str_def or_empty_def split: option.splits)

theorem cargar_recurso_strategy_witness:
  "cargar_recurso tienda recurso_ds 2
     = ([DatastoreSearch ''r1'' 2], Inr (Some (DataFrame [[(''a'', Num 1)], [(''a'', Num 2)]]))) \<and>
   fst (cargar_recurso tienda recurso_csv 2) = [ReadCsv ''http://x/y.csv''] \<and>
   cargar_recurso tienda recurso_pdf 2 = ([], Inr None)"
proof -
  have a: "truthy_flag (datastore_active recurso_ds)"
    by (simp add: truthy_flag_def recurso_ds_def)
  have b: "\<not> truthy_flag (datastore_active recurso_csv) \<and>
      upper (or_empty (format recurso_csv)) = ''CSV'' \<and> truthy_str (url recurso_csv)"
    by (simp add: truthy_flag_def truthy_str_def or_empty_def upper_def upper_char_def
        recurso_csv_def)
  have c: "\<not> truthy_flag (datastore_active recurso_pdf) \<and>
      \<not> (upper (or_empty (format recurso_pdf)) = ''CSV'' \<and> truthy_str (url recurso_pdf))"
    by (simp add: truthy_flag_def truthy_str_def or_empty_def upper_def upper_char_def
        recurso_pdf_def)
  have d: "cargar_recurso_datastore tienda (res_id recurso_ds) 2
      = Inr (DataFrame [[(''a'', Num 1)], [(''a'', Num 2)]])"
    by (simp add: cargar_recurso_datastore_def tienda_def recurso_ds_def numeral_2_eq_2)
  have e: "res_id recurso_ds = ''r1''" "url recurso_csv = Some ''http://x/y.csv''"
    by (simp_all add: recurso_ds_def recurso_csv_def)
  show ?thesis
    using a b c d e cargar_recurso_strategy [of recurso_ds tienda 2]
      cargar_recurso_strategy [of recurso_csv tienda 2]
      cargar_recurso_strategy [of recurso_pdf tienda 2]
    by auto
qed




section \<open>Schema profiler: results\<close>

lemma low_cardinality_loop_Inr:
  "\<exists>out. low_cardinality_loop df mu cs cols = Inr out \<and>
     set out = set cols \<union>
       {c \<in> set cs. \<exists>n. nunique (column df c) = Inr n \<and> 2 \<le> n \<and> n \<le> mu}"
proof (induction cs arbitrary: cols)
  case Nil
  show ?case by simp
next
  case (Cons c cs)
  show ?case
  proof (cases "nunique (column df c)")
    case (Inl e)
    with Cons.IH [of cols] show ?thesis by auto
  next
    case (Inr n)
    show ?thesis
    proof (cases "2 \<le> n \<and> n \<le> mu")
      case True
      with Inr Cons.IH [of "cols @ [c]"] show ?thesis by auto
    next
      case False
      with Inr Cons.IH [of cols] show ?thesis by auto
    qed
  qed
qed

lemma nunique_Inr: "nunique vs = Inr n \<Longrightarrow> n = card (set vs - {Null})"
proof -
  have "{v \<in> set vs. v \<noteq> Null} = set vs - {Null}"
    by auto
  then show "nunique vs = Inr n \<Longrightarrow> n = card (set vs - {Null})"
    by (auto simp: nunique_def length_remdups_card_conv split: if_splits)
qed

lemma low_cardinality_cols_perfil:
  "low_cardinality_cols perfil 60 = Inr [''anio'', ''region'']"
  by (simp add: low_cardinality_cols_def nunique_def column_def cell_def perfil_def)

text \<open>
  C8.  \<^verbatim>\<open>low_cardinality_cols\<close> never raises.  A column is in its result exactly when
  the count of its distinct cells that are not missing is computed and lies between 2 and
  60, both included; a column whose count raises is left out.
\<close>

theorem low_cardinality_cols_classify:
  "\<exists>cols. low_cardinality_cols df 60 = Inr cols \<and>
     (\<forall>c. c \<in> set cols \<longleftrightarrow>
        c \<in> set (columns df) \<and>
        (\<exists>n. nunique (column df c) = Inr n \<and> n = card (set (column df c) - {Null}) \<and>
             2 \<le> n \<and> n \<le> 60)) \<and>
     (\<forall>c e. nunique (column df c) = Inl e \<longrightarrow> c \<notin> set cols)"
proof -
  from low_cardinality_loop_Inr [of df 60 "columns df" "[]"]
  obtain cols where cols: "low_cardinality_cols df 60 = Inr cols"
    and mem: "set cols =
      {c \<in> set (columns df). \<exists>n. nunique (column df c) = Inr n \<and> 2 \<le> n \<and> n \<le> 60}"
    by (auto simp: low_cardinality_cols_def)
  have "c \<in> set cols \<longleftrightarrow>
        c \<in> set (columns df) \<and>
        (\<exists>n. nunique (column df c) = Inr n \<and> n = card (set (column df c) - {Null}) \<and>
             2 \<le> n \<and> n \<le> 60)" for c
    using mem nunique_Inr by auto
  moreover have "nunique (column df c) = Inl e \<longrightarrow> c \<notin> set cols" for c e
    using mem by auto
  ultimately show ?thesis
    using cols by blast
qed

theorem low_cardinality_cols_classify_witness:
  "nunique (column perfil ''tags'') = Inl TypeError \<and>
   nunique (column perfil ''pais'') = Inr 1 \<and>
   low_cardinality_cols perfil 60 = Inr [''anio'', ''region'']"
proof -
  have t: "nunique (column perfil ''tags'') = Inl TypeError"
    by (simp add: nunique_def column_def cell_def perfil_def)
  have p: "nunique (column perfil ''pais'') = Inr 1"
    by (simp add: nunique_def column_def cell_def perfil_def)
  from low_cardinality_cols_classify [of perfil] t low_cardinality_cols_perfil
  have "''tags'' \<notin> set [''anio'', ''region'']"
    by auto
  with t p low_cardinality_cols_perfil show ?thesis
    by simp
qed

text \<open>
  C10.  The candidates offered for the Top 15 are the low-cardinality columns of the
  filtered frame without the chosen indicator column, which is never among them.
\<close>

theorem cat_candidates_excludes_col:
  "\<exists>lows cs. low_cardinality_cols df 60 = Inr lows \<and> cat_candidates df col = Inr cs \<and>
     col \<notin> set cs \<and> cs = filter (\<lambda>c. c \<noteq> col) lows"
  using low_cardinality_loop_Inr [of df 60 "columns df" "[]"]
  by (auto simp: cat_candidates_def low_cardinality_cols_def)

theorem cat_candidates_excludes_col_witness:
  "low_cardinality_cols perfil 60 = Inr [''anio'', ''region''] \<and>
   cat_candidates perfil ''anio'' = Inr [''region'']"
  using cat_candidates_excludes_col [of perfil "''anio''"] low_cardinality_cols_perfil
  by auto

section \<open>Filter and statistics: results\<close>

lemma cell_update_same: "cell (AList.update c v r) c = v"
  by (simp add: cell_def update_conv')

lemma column_setitem_aux:
  "map ((\<lambda>r. cell r c) \<circ> (\<lambda>(r, v). AList.update c v r)) (zip rs (map g rs)) = map g rs"
  by (induction rs) (simp_all add: cell_update_same)

lemma column_coerced:
  "column (coerced parse df col) col = map (to_numeric parse) (column df col)"
  by (simp add: coerced_def setitem_def column_def column_setitem_aux)

lemma column_df_f:
  "column (df_f df col rango) col = filter (in_rango rango) (column df col)"
  by (simp add: df_f_def column_def filter_map o_def)

lemma in_rango_simps:
  "in_rango (lo, hi) (Num x) = (lo \<le> x \<and> x \<le> hi)"
  "in_rango rango Null = False"
  "in_rango rango (Str t) = False"
  "in_rango rango Exotic = False"
  by (simp_all add: in_rango_def)

lemma in_rango_Num: "in_rango rango v \<Longrightarrow> \<exists>x. v = Num x"
  by (cases v) (simp_all add: in_rango_def)

lemma dropna_filter_in_rango:
  "dropna (filter (in_rango (lo, hi)) vs) = filter (\<lambda>x. lo \<le> x \<and> x \<le> hi) (dropna vs)"
  by (induction vs rule: dropna.induct) (simp_all add: in_rango_simps)

lemma dropna_Nil_iff: "dropna vs = [] \<longleftrightarrow> (\<forall>v \<in> set vs. \<forall>x. v \<noteq> Num x)"
  by (induction vs rule: dropna.induct) auto

lemma s_f_filter:
  "s_f parse df col (lo, hi) = filter (\<lambda>x. lo \<le> x \<and> x \<le> hi) (serie parse df col)"
  by (simp add: s_f_def serie_def column_df_f dropna_filter_in_rango)

lemma filter_full_bounds:
  "filter (\<lambda>x. minv xs \<le> x \<and> x \<le> maxv xs) xs = xs"
  by (simp add: minv_def maxv_def filter_id_conv)

lemma dropna_to_numeric:
  "dropna (map (to_numeric parse) vs) =
     concat (map (\<lambda>v. case v of
                        Num x \<Rightarrow> [x]
                      | Str t \<Rightarrow> (case parse t of Some x \<Rightarrow> [x] | None \<Rightarrow> [])
                      | _ \<Rightarrow> []) vs)"
  by (induction vs) (auto simp: to_numeric_def split: scalar.splits option.splits)

lemma serie_ejemplo: "serie parse ejemplo ''egresos'' = [4, 7, 3, 90]"
  by (simp add: serie_def column_coerced)
    (simp add: column_def cell_def ejemplo_def to_numeric_def)

text \<open>
  C7.  The series of the chosen column holds, in row order, the number of each cell that
  is a number or a text that parses; a text that does not parse, a missing cell and any
  other cell give nothing.  So the series is empty exactly when no cell is a number or a
  parseable text, and the column 10, 20, 30, "bad", null gives the series 10, 20, 30.
\<close>

theorem serie_coerces_and_drops:
  "serie parse df col =
     concat (map (\<lambda>v. case v of
                        Num x \<Rightarrow> [x]
                      | Str t \<Rightarrow> (case parse t of Some x \<Rightarrow> [x] | None \<Rightarrow> [])
                      | _ \<Rightarrow> []) (column df col)) \<and>
   (serie parse df col = [] \<longleftrightarrow>
      (\<forall>v \<in> set (column df col).
         case v of Num x \<Rightarrow> False | Str t \<Rightarrow> parse t = None | _ \<Rightarrow> True)) \<and>
   (parse ''bad'' = None \<longrightarrow>
      column tabla_egresos ''egresos'' = [Num 10, Num 20, Num 30, Str ''bad'', Null] \<and>
      serie parse tabla_egresos ''egresos'' = [10, 20, 30] \<and>
      length (serie parse tabla_egresos ''egresos'') = 3)"
proof -
  have eq: "serie parse df col = dropna (map (to_numeric parse) (column df col))" for df col
    by (simp add: serie_def column_coerced)
  have "dropna (map (to_numeric parse) (column df col)) = [] \<longleftrightarrow>
      (\<forall>v \<in> set (column df col). \<forall>x. to_numeric parse v \<noteq> Num x)"
    by (simp add: dropna_Nil_iff)
  also have "\<dots> \<longleftrightarrow>
      (\<forall>v \<in> set (column df col).
         case v of Num x \<Rightarrow> False | Str t \<Rightarrow> parse t = None | _ \<Rightarrow> True)"
    by (rule ball_cong [OF refl])
      (simp add: to_numeric_def split: scalar.splits option.splits)
  finally have "serie parse df col = [] \<longleftrightarrow>
      (\<forall>v \<in> set (column df col).
         case v of Num x \<Rightarrow> False | Str t \<Rightarrow> parse t = None | _ \<Rightarrow> True)"
    by (simp only: eq)
  moreover have c: "column tabla_egresos ''egresos'' = [Num 10, Num 20, Num 30, Str ''bad'', Null]"
    by (simp add: column_def cell_def tabla_egresos_def)
  moreover have "serie parse tabla_egresos ''egresos'' = [10, 20, 30]" if "parse ''bad'' = None"
    unfolding eq c using that by (simp add: to_numeric_def)
  ultimately show ?thesis
    by (simp add: eq dropna_to_numeric)
qed

theorem serie_coerces_and_drops_witness:
  "[''7'' \<mapsto> 7] ''bad'' = None \<and>
   serie [''7'' \<mapsto> 7] tabla_egresos ''egresos'' = [10, 20, 30] \<and>
   serie [''7'' \<mapsto> 7] tabla_egresos ''notas'' = []"
proof -
  have p: "[''7'' \<mapsto> (7::rat)] ''bad'' = None"
    by simp
  have n: "\<forall>v \<in> set (column tabla_egresos ''notas'').
      case v of Num x \<Rightarrow> False | Str t \<Rightarrow> [''7'' \<mapsto> (7::rat)] t = None | _ \<Rightarrow> True"
    by (simp add: column_def cell_def tabla_egresos_def)
  from serie_coerces_and_drops [of "[''7'' \<mapsto> 7]" tabla_egresos "''egresos''"] p
  have "serie [''7'' \<mapsto> 7] tabla_egresos ''egresos'' = [10, 20, 30]"
    by blast
  moreover from serie_coerces_and_drops [of "[''7'' \<mapsto> 7]" tabla_egresos "''notas''"] n
  have "serie [''7'' \<mapsto> 7] tabla_egresos ''notas'' = []"
    by blast
  ultimately show ?thesis
    using p by simp
qed

text \<open>
  C6.  For a column whose series is not empty, the filtered series \<open>s\<close> holds exactly the
  numbers \<open>v\<close> of the series with \<open>lo \<le> v \<le> hi\<close>, in order, and with the smallest and the
  largest number of the series as bounds it is the series itself.
\<close>

theorem range_filter_inclusive_identity:
  "serie parse df col \<noteq> [] \<Longrightarrow>
     s_f parse df col (lo, hi) = filter (\<lambda>v. lo \<le> v \<and> v \<le> hi) (serie parse df col) \<and>
     s_f parse df col (minv (serie parse df col), maxv (serie parse df col))
       = serie parse df col"
  by (simp add: s_f_filter filter_full_bounds)

theorem range_filter_inclusive_identity_witness:
  "serie Map.empty ejemplo ''egresos'' = [4, 7, 3, 90] \<and>
   s_f Map.empty ejemplo ''egresos'' (4, 7) = [4, 7] \<and>
   minv [4, 7, 3, 90] = 3 \<and> maxv [4, 7, 3, 90] = 90 \<and>
   s_f Map.empty ejemplo ''egresos'' (3, 90) = [4, 7, 3, 90]"
proof -
  have ne: "serie Map.empty ejemplo ''egresos'' \<noteq> []"
    by (simp add: serie_ejemplo)
  have m: "minv [4, 7, 3, 90] = 3" "maxv [4, 7, 3, 90] = 90"
    by (simp_all add: minv_def maxv_def)
  from range_filter_inclusive_identity [OF ne, of 4 7] m
  show ?thesis
    by (simp add: serie_ejemplo)
qed

text \<open>
  C9.  On a series that is not empty the mean and the median are numbers, and the label
  is positive exactly when the mean is larger, negative exactly when it is smaller and
  symmetric exactly when they are equal.  The series 1, 2, 3, 4, 100 is positive and
  1, 2, 3, 4, 5 is symmetric.
\<close>

theorem asim_mean_median:
  "(s \<noteq> [] \<longrightarrow>
      (\<exists>m md. mean s = Some m \<and> median s = Some md \<and>
         (asim s = Positiva \<longleftrightarrow> m > md) \<and>
         (asim s = Negativa \<longleftrightarrow> m < md) \<and>
         (asim s = Simetrica \<longleftrightarrow> m = md))) \<and>
   asim [1, 2, 3, 4, 100] = Positiva \<and>
   asim [1, 2, 3, 4, 5] = Simetrica"
proof -
  have "\<exists>m md. mean s = Some m \<and> median s = Some md \<and>
         (asim s = Positiva \<longleftrightarrow> m > md) \<and>
         (asim s = Negativa \<longleftrightarrow> m < md) \<and>
         (asim s = Simetrica \<longleftrightarrow> m = md)" if "s \<noteq> []"
  proof -
    from that obtain m where m: "mean s = Some m"
      by (simp add: mean_def)
    from that have "median s \<noteq> None"
      by (simp add: median_def Let_def del: not_None_eq)
    then obtain md where md: "median s = Some md"
      by blast
    show ?thesis
      using m md by (auto simp: asim_def)
  qed
  moreover have "asim [1, 2, 3, 4, 100] = Positiva"
    by (simp add: asim_def mean_def median_def)
  moreover have "asim [1, 2, 3, 4, 5] = Simetrica"
    by (simp add: asim_def mean_def median_def)
  ultimately show ?thesis
    by blast
qed

theorem asim_mean_median_witness:
  "[1, 2, 3, 4, 100] \<noteq> ([] :: rat list) \<and>
   mean [1, 2, 3, 4, 100] = Some 22 \<and> median [1, 2, 3, 4, 100] = Some 3 \<and>
   asim [1, 2, 3, 4, 100] = Positiva"
proof -
  have "mean [1, 2, 3, 4, 100] = Some 22" "median [1, 2, 3, 4, 100] = Some 3"
    by (simp_all add: mean_def median_def)
  with asim_mean_median [of "[1, 2, 3, 4, 100]"] show ?thesis
    by auto
qed

text \<open>
  C1.  The run stops when the coerced series is empty (the column \<open>notas\<close> below), but
  nothing stops it when the range empties the series.  For the column 4, 7, 3, 90 the
  slider can return the range from 10 to 50; the filtered series is then empty and the
  indicators and the conclusion are computed from it all the same: a count and a sum of
  0, no mean, median, P90 or maximum, and the label symmetric.
\<close>

theorem analisis_on_emptied_series:
  "analisis Map.empty tabla_egresos ''notas'' (0, 1) = Stopped_empty_series \<and>
   serie parse ejemplo ''egresos'' = [4, 7, 3, 90] \<and>
   slider_ok (serie parse ejemplo ''egresos'') (10, 50) \<and>
   s_f parse ejemplo ''egresos'' (10, 50) = [] \<and>
   analisis parse ejemplo ''egresos'' (10, 50) =
     Rendered \<lparr>registros = 0, suma = 0, promedio = None, mediana = None, p90 = None,
               maximo = None\<rparr> Simetrica"
proof -
  have n: "serie Map.empty tabla_egresos ''notas'' = []"
    by (simp add: serie_def column_coerced)
      (simp add: column_def cell_def tabla_egresos_def to_numeric_def)
  have s: "s_f parse ejemplo ''egresos'' (10, 50) = []"
    by (simp add: s_f_filter serie_ejemplo)
  have "slider_ok (serie parse ejemplo ''egresos'') (10, 50)"
    by (simp add: serie_ejemplo slider_ok_def minv_def maxv_def)
  moreover have "analisis parse ejemplo ''egresos'' (10, 50) =
     Rendered \<lparr>registros = 0, suma = 0, promedio = None, mediana = None, p90 = None,
               maximo = None\<rparr> Simetrica"
    by (simp add: analisis_def serie_ejemplo s indicadores_def asim_def mean_def median_def
        quantile_def maximum_def)
  moreover have "analisis Map.empty tabla_egresos ''notas'' (0, 1) = Stopped_empty_series"
    by (simp add: analisis_def n)
  ultimately show ?thesis
    using s by (simp add: serie_ejemplo)
qed

section \<open>Top 15 by category: results\<close>

lemma fst_groupby:
  "map fst (map (\<lambda>(k, xs). (k, reduce modo xs)) (groupby t)) = sort (remdups (map fst t))"
  by (simp add: groupby_def o_def)

lemma length_groupby: "length (groupby t) = card (set (map fst t))"
  by (simp add: groupby_def length_remdups_card_conv)

lemma tmp_df_f_Num:
  assumes "p \<in> set (tmp astype_str (df_f df col rango) cat col)"
  shows "\<exists>x. snd p = Num x"
proof -
  from assms have "snd p \<in> set (column (df_f df col rango) col)"
    unfolding tmp_def by (metis in_set_zipE prod.collapse)
  then have "in_rango rango (snd p)"
    by (simp add: column_df_f)
  then show ?thesis
    by (rule in_rango_Num)
qed

lemma reduce_Some: "xs \<noteq> [] \<Longrightarrow> \<exists>y. reduce modo xs = Some y"
  by (cases modo) (simp_all add: mean_def)

lemma groupby_reduced_Some:
  assumes num: "\<forall>p \<in> set t. \<exists>x. snd p = Num x"
    and mem: "q \<in> set (map (\<lambda>(k, xs). (k, reduce modo xs)) (groupby t))"
  shows "\<exists>y. snd q = Some y"
proof -
  from mem obtain k where k: "k \<in> set (map fst t)"
    and q: "q = (k, reduce modo (dropna (map snd (filter (\<lambda>p. fst p = k) t))))"
    by (auto simp: groupby_def)
  from k obtain p where p: "p \<in> set t" "fst p = k"
    by auto
  with num obtain x where "snd p = Num x"
    by blast
  with p have "Num x \<in> set (map snd (filter (\<lambda>p. fst p = k) t))"
    by force
  then have "dropna (map snd (filter (\<lambda>p. fst p = k) t)) \<noteq> []"
    by (auto simp: dropna_Nil_iff)
  then show ?thesis
    using q reduce_Some by simp
qed

subsection \<open>The sort\<close>

lemma mset_argsort: "mset (argsort tie xs) = mset [0..<length xs]"
  by (simp add: argsort_def)

lemma set_argsort: "set (argsort tie xs) = {0..<length xs}"
  using mset_argsort [of tie xs] by (metis mset_eq_setD set_upt)

lemma sorted_argsort: "sorted (map (\<lambda>i. xs ! i) (argsort tie xs))"
  by (simp add: argsort_def sorted_sort_key)

lemma mset_map_nth_argsort:
  assumes "length xs = length ys"
  shows "mset (map (\<lambda>i. ys ! i) (argsort tie xs)) = mset ys"
proof -
  have "mset (map (\<lambda>i. ys ! i) (argsort tie xs)) = image_mset (\<lambda>i. ys ! i) (mset (argsort tie xs))"
    by simp
  also have "\<dots> = image_mset (\<lambda>i. ys ! i) (mset [0..<length ys])"
    by (simp only: mset_argsort assms)
  also have "\<dots> = mset (map (\<lambda>i. ys ! i) [0..<length ys])"
    by simp
  also have "\<dots> = mset ys"
    by (simp only: map_nth)
  finally show ?thesis .
qed

lemma map_map_nth_argsort:
  assumes "length xs = length ys"
  shows "map f (map (\<lambda>i. ys ! i) (argsort tie xs)) = map (\<lambda>i. map f ys ! i) (argsort tie xs)"
  using assms by (simp add: set_argsort)

text \<open>The parameter \<open>tie\<close> leaves the sort free: every ascending arrangement is a result.\<close>

lemma rank_nth:
  assumes "distinct p" "k < length p"
  shows "length (takeWhile (\<lambda>j. j \<noteq> p ! k) p) = k"
proof -
  have "takeWhile (\<lambda>j. j \<noteq> p ! k) p = take k p"
  proof (rule takeWhile_eq_take_P_nth)
    fix i assume "i < k" "i < length p"
    with assms show "p ! i \<noteq> p ! k"
      by (simp add: nth_eq_iff_index_eq)
  next
    show "\<not> p ! k \<noteq> p ! k" by simp
  qed
  with assms show ?thesis by simp
qed

lemma argsort_any:
  assumes perm: "mset p = mset [0..<length xs]"
    and asc: "sorted (map (\<lambda>i. xs ! i) p)"
  shows "\<exists>tie. argsort tie xs = p"
proof -
  let ?rank = "\<lambda>i. length (takeWhile (\<lambda>j. j \<noteq> i) p)"
  let ?q = "sort_key ?rank [0..<length xs]"
  have "distinct [0..<length xs]"
    by simp
  with perm have dp: "distinct p"
    by (simp only: mset_eq_imp_distinct_iff [OF perm])
  have rp: "map ?rank p = [0..<length p]"
  proof (rule nth_equalityI)
    show "length (map ?rank p) = length [0..<length p]" by simp
  next
    fix k assume "k < length (map ?rank p)"
    then show "map ?rank p ! k = [0..<length p] ! k"
      using rank_nth [OF dp] by simp
  qed
  have inj: "inj_on ?rank (set p)"
  proof (rule inj_onI)
    fix a b assume "a \<in> set p" "b \<in> set p" and eq: "?rank a = ?rank b"
    then obtain i j where i: "i < length p" "a = p ! i" and j: "j < length p" "b = p ! j"
      by (metis in_set_conv_nth)
    with eq rank_nth [OF dp] show "a = b" by simp
  qed
  have mq: "mset ?q = mset p"
    using perm by simp
  then have sq: "set ?q = set p"
    by (rule mset_eq_setD)
  from dp have dq: "distinct ?q"
    by (simp only: mset_eq_imp_distinct_iff [OF mq])
  have "map ?rank ?q = map ?rank p"
  proof (rule sorted_distinct_set_unique)
    show "sorted (map ?rank ?q)" by (rule sorted_sort_key)
    show "distinct (map ?rank ?q)" using dq inj sq by (simp add: distinct_map)
    show "sorted (map ?rank p)" by (simp only: rp) simp
    show "distinct (map ?rank p)" by (simp only: rp) simp
    show "set (map ?rank ?q) = set (map ?rank p)" using sq by simp
  qed
  moreover from inj sq have "inj_on ?rank (set ?q \<union> set p)"
    by simp
  ultimately have "?q = p"
    by (rule map_inj_on)
  then have "argsort (\<lambda>ys. ?rank) xs = sort_key (\<lambda>i. xs ! i) p"
    by (simp add: argsort_def)
  also have "\<dots> = p"
    using asc by (rule sort_key_id_if_sorted)
  finally show ?thesis
    by blast
qed

text \<open>The part of the sorted series that is not \<^verbatim>\<open>NaN\<close>, as a sorted arrangement.\<close>

lemma sorted_non_nans:
  "sorted_wrt (\<lambda>a b. a \<ge> b)
     (map (\<lambda>p. the (snd p))
        (rev (map (\<lambda>i. non ! i)
           (argsort tie (map (\<lambda>p. the (snd p)) (non :: (string \<times> rat option) list))))))"
proof -
  let ?f = "\<lambda>p::string \<times> rat option. the (snd p)"
  have "map ?f (map (\<lambda>i. non ! i) (argsort tie (map ?f non)))
      = map (\<lambda>i. map ?f non ! i) (argsort tie (map ?f non))"
    by (rule map_map_nth_argsort) simp
  then have "sorted (map ?f (map (\<lambda>i. non ! i) (argsort tie (map ?f non))))"
    by (simp only: sorted_argsort)
  then show ?thesis
    by (simp only: rev_map [symmetric] sorted_wrt_rev)
qed

lemma mset_sort_values_desc: "mset (sort_values_desc tie ser) = mset ser"
proof -
  let ?non = "rev (filter (\<lambda>p. snd p \<noteq> None) ser)"
  let ?f = "\<lambda>p::string \<times> rat option. the (snd p)"
  have "mset (map (\<lambda>i. ?non ! i) (argsort tie (map ?f ?non))) = mset ?non"
    by (rule mset_map_nth_argsort) simp
  then have "mset (sort_values_desc tie ser)
      = mset (filter (\<lambda>p. snd p \<noteq> None) ser) + mset (filter (\<lambda>p. snd p = None) ser)"
    by (simp add: sort_values_desc_def Let_def)
  also have "\<dots> = mset ser"
    by (induction ser) auto
  finally show ?thesis .
qed

lemma set_sort_values_desc: "set (sort_values_desc tie ser) = set ser"
  using mset_sort_values_desc by (rule mset_eq_setD)

lemma length_sort_values_desc: "length (sort_values_desc tie ser) = length ser"
  using mset_sort_values_desc by (rule mset_eq_length)

lemma distinct_fst_sort_values_desc:
  assumes "distinct (map fst ser)"
  shows "distinct (map fst (sort_values_desc tie ser))"
proof -
  have "mset (map fst (sort_values_desc tie ser)) = mset (map fst ser)"
    by (simp only: mset_map mset_sort_values_desc)
  then show ?thesis
    using assms by (metis mset_eq_imp_distinct_iff)
qed

lemma sorted_desc_sort_values:
  assumes "\<forall>q \<in> set ser. \<exists>y. snd q = Some y"
  shows "sorted_wrt (\<lambda>a b. a \<ge> b) (map (\<lambda>p. the (snd p)) (sort_values_desc tie ser))"
proof -
  from assms have "filter (\<lambda>p. snd p \<noteq> None) ser = ser"
    by (auto simp: filter_id_conv)
  moreover from assms have "filter (\<lambda>p. snd p = None) ser = []"
    by (auto simp: filter_empty_conv)
  ultimately have "sort_values_desc tie ser
      = rev (map (\<lambda>i. rev ser ! i) (argsort tie (map (\<lambda>p. the (snd p)) (rev ser))))"
    by (simp add: sort_values_desc_def Let_def)
  then show ?thesis
    using sorted_non_nans [where non = "rev ser" and tie = tie] by simp
qed


subsection \<open>The result \<open>grp\<close>\<close>

lemma length_grp: "length (grp tie t modo) = min 15 (card (set (map fst t)))"
  by (simp add: grp_def length_sort_values_desc length_groupby min.commute)

lemma distinct_fst_grp: "distinct (map fst (grp tie t modo))"
proof -
  have "distinct (map fst (map (\<lambda>(k, xs). (k, reduce modo xs)) (groupby t)))"
    by (simp only: fst_groupby) simp
  then have "distinct (map fst (sort_values_desc tie
      (map (\<lambda>(k, xs). (k, reduce modo xs)) (groupby t))))"
    by (rule distinct_fst_sort_values_desc)
  then show ?thesis
    unfolding grp_def by (simp only: take_map [symmetric] distinct_take)
qed

lemma set_grp:
  "set (grp tie t modo) \<subseteq> set (map (\<lambda>(k, xs). (k, reduce modo xs)) (groupby t))"
  unfolding grp_def using set_take_subset set_sort_values_desc by metis

lemma set_fst_grp: "set (map fst (grp tie t modo)) \<subseteq> set (map fst t)"
proof -
  have "fst ` set (grp tie t modo)
      \<subseteq> set (map fst (map (\<lambda>(k, xs). (k, reduce modo xs)) (groupby t)))"
    using set_grp by (metis image_mono set_map)
  then show ?thesis
    by (simp only: fst_groupby) simp
qed

subsection \<open>Reordering the rows\<close>








text \<open>
  C5.  For the filtered frame of any table, range and mode, a category column other than
  the indicator, and whatever the sort does with equal values, \<open>grp\<close> has at most 15
  entries, every reduced result is a number and they do not increase along the list.  The
  labels are distinct labels of the frame, and with at most 15 distinct labels every one
  of them is in \<open>grp\<close>, once, and nothing else.
\<close>

theorem grp_top15_sorted:
  assumes "cat \<noteq> col"
    and "t = tmp astype_str (df_f df col rango) cat col"
    and "r = grp tie t modo"
  shows "length r \<le> 15 \<and>
     (\<exists>vs. map snd r = map Some vs \<and> sorted_wrt (\<lambda>a b. a \<ge> b) vs) \<and>
     distinct (map fst r) \<and> set (map fst r) \<subseteq> set (map fst t) \<and>
     (card (set (map fst t)) \<le> 15 \<longrightarrow>
        set (map fst r) = set (map fst t) \<and> length r = card (set (map fst t)))"
proof -
  let ?ser = "map (\<lambda>(k, xs). (k, reduce modo xs)) (groupby t)"
  let ?f = "\<lambda>p::string \<times> rat option. the (snd p)"
  have len: "length r = min 15 (card (set (map fst t)))"
    using assms(3) by (simp only: length_grp)
  have num: "\<forall>p \<in> set t. \<exists>x. snd p = Num x"
    using assms(2) tmp_df_f_Num by blast
  have some: "\<forall>q \<in> set ?ser. \<exists>y. snd q = Some y"
    using groupby_reduced_Some [OF num] by blast
  have "sorted_wrt (\<lambda>a b. a \<ge> b) (map ?f (sort_values_desc tie ?ser))"
    using some by (rule sorted_desc_sort_values)
  then have "sorted_wrt (\<lambda>a b. a \<ge> b) (take 15 (map ?f (sort_values_desc tie ?ser)))"
    by (rule sorted_wrt_take)
  then have srt: "sorted_wrt (\<lambda>a b. a \<ge> b) (map ?f r)"
    using assms(3) by (simp only: grp_def take_map)
  have "set r \<subseteq> set ?ser"
    using assms(3) set_grp by simp
  with some have "\<forall>q \<in> set r. \<exists>y. snd q = Some y"
    by blast
  then have "map snd r = map Some (map ?f r)"
    by (induction r) auto
  with srt have vals: "\<exists>vs. map snd r = map Some vs \<and> sorted_wrt (\<lambda>a b. a \<ge> b) vs"
    by blast
  have dist: "distinct (map fst r)"
    using assms(3) by (simp only: distinct_fst_grp)
  have sub: "set (map fst r) \<subseteq> set (map fst t)"
    using assms(3) by (simp only: set_fst_grp)
  have all: "set (map fst r) = set (map fst t) \<and> length r = card (set (map fst t))"
    if le: "card (set (map fst t)) \<le> 15"
  proof -
    from le len have l: "length r = card (set (map fst t))"
      by simp
    from dist have "card (set (map fst r)) = length r"
      by (metis distinct_card length_map)
    with l sub have "set (map fst r) = set (map fst t)"
      by (metis List.finite_set card_subset_eq)
    with l show ?thesis by simp
  qed
  from len vals dist sub all show ?thesis
    by simp
qed

lemma tmp_ejemplo:
  "tmp str_texto (df_f ejemplo ''egresos'' (0, 10)) ''region'' ''egresos''
     = [(''sur'', Num 4), (''norte'', Num 7), (''sur'', Num 3)]"
  by (simp add: tmp_def df_f_def ejemplo_def column_def cell_def in_rango_def)

lemma groupby_ejemplo:
  "map (\<lambda>(k, xs). (k, reduce Suma xs)) (groupby [(''sur'', Num 4), (''norte'', Num 7), (''sur'', Num 3)])
     = [(''norte'', Some 7), (''sur'', Some 7)]"
  by (simp add: groupby_def)

lemma grp_ejemplo_as_received:
  "grp as_received [(''sur'', Num 4), (''norte'', Num 7), (''sur'', Num 3)] Suma
     = [(''norte'', Some 7), (''sur'', Some 7)]"
  by (simp only: grp_def groupby_ejemplo)
    (simp add: sort_values_desc_def argsort_def as_received_def)

lemma grp_ejemplo_turned:
  "grp turned [(''sur'', Num 4), (''norte'', Num 7), (''sur'', Num 3)] Suma
     = [(''sur'', Some 7), (''norte'', Some 7)]"
  by (simp only: grp_def groupby_ejemplo)
    (simp add: sort_values_desc_def argsort_def turned_def)

theorem grp_top15_sorted_witness:
  "''region'' \<noteq> ''egresos'' \<and>
   grp as_received (tmp str_texto (df_f ejemplo ''egresos'' (0, 10)) ''region'' ''egresos'') Suma
     = [(''norte'', Some 7), (''sur'', Some 7)] \<and>
   grp turned (tmp str_texto (df_f ejemplo ''egresos'' (0, 10)) ''region'' ''egresos'') Suma
     = [(''sur'', Some 7), (''norte'', Some 7)] \<and>
   card (set (map fst (tmp str_texto (df_f ejemplo ''egresos'' (0, 10)) ''region'' ''egresos'')))
     \<le> 15 \<and>
   set (map fst (grp turned (tmp str_texto (df_f ejemplo ''egresos'' (0, 10)) ''region'' ''egresos'') Suma))
     = set (map fst (tmp str_texto (df_f ejemplo ''egresos'' (0, 10)) ''region'' ''egresos''))"
proof -
  have neq: "''region'' \<noteq> ''egresos''"
    by simp
  have c: "card (set (map fst
      (tmp str_texto (df_f ejemplo ''egresos'' (0, 10)) ''region'' ''egresos''))) \<le> 15"
    by (simp only: length_remdups_card_conv [symmetric] tmp_ejemplo) simp
  show ?thesis
    using neq c grp_ejemplo_as_received grp_ejemplo_turned
      grp_top15_sorted [OF neq refl refl, where astype_str = str_texto and df = ejemplo
        and rango = "(0, 10)" and tie = turned and modo = Suma]
    by (simp add: tmp_ejemplo)
qed




end
